theory Spec2Isabelle
  imports Complex_Main "HOL-Library.Sublist"
begin

section \<open>Conventions of the embedding\<close>

text \<open>
  The engines are TypeScript classes.  A JavaScript \<open>number\<close> that holds a score, a
  weight or a confidence is modelled as a \<^typ>\<open>real\<close> (exact arithmetic: rounding of
  IEEE doubles and the values NaN and Infinity are outside the model); a number that holds
  a timestamp, a duration in milliseconds, a size limit or a result count is an
  \<^typ>\<open>int\<close>.  A string is a \<^typ>\<open>string\<close>, a list of bytes: the model covers ASCII
  text.  A string-literal union type is a datatype with a function that gives the literal
  back.  An optional field is an \<^typ>\<open>'a option\<close>.
  An array is a list.  A \<open>Map\<close> is an association list kept in insertion order, because the
  code iterates over its maps.  Mutable members of a class are a record that every
  operation takes and returns.  The clock (\<open>Date.now()\<close>) and the local time zone
  (\<open>Date.getHours\<close>) are arguments.
\<close>

subsection \<open>Array and string primitives of JavaScript\<close>

text \<open>
  \<open>Array.prototype.slice\<close> first turns each index into a position between \<open>0\<close> and the
  length: a negative index counts from the end.  Note that \<open>-0\<close> is \<open>0\<close>, so \<open>slice(-0)\<close>
  is the whole array.
\<close>

definition relative_index :: "int \<Rightarrow> nat \<Rightarrow> nat" where
  "relative_index i len = (if i < 0 then nat (max (int len + i) 0) else min (nat i) len)"

definition slice_from :: "'a list \<Rightarrow> int \<Rightarrow> 'a list" where
  "slice_from xs start = drop (relative_index start (length xs)) xs"

definition slice :: "'a list \<Rightarrow> int \<Rightarrow> int \<Rightarrow> 'a list" where
  "slice xs start fin =
     (let k = relative_index start (length xs);
          f = relative_index fin (length xs)
      in take (f - k) (drop k xs))"

text \<open>\<open>String.prototype.substring(0, n)\<close> for a count \<open>n\<close> that is not negative.\<close>

definition substring0 :: "string \<Rightarrow> nat \<Rightarrow> string" where
  "substring0 s n = take n s"

text \<open>\<open>s.includes(t)\<close>: \<open>t\<close> occurs in \<open>s\<close> as a contiguous run of characters.\<close>

definition js_includes :: "string \<Rightarrow> string \<Rightarrow> bool" where
  "js_includes s t = sublist t s"

text \<open>\<open>toLowerCase\<close> on the ASCII letters; every other character is kept.\<close>

definition lower_char :: "char \<Rightarrow> char" where
  "lower_char c =
     (let n = (of_char c :: nat) in if 65 \<le> n \<and> n \<le> 90 then char_of (n + 32) else c)"

definition toLowerCase :: "string \<Rightarrow> string" where
  "toLowerCase s = map lower_char s"

text \<open>\<open>parts.join(sep)\<close>.\<close>

fun join :: "string \<Rightarrow> string list \<Rightarrow> string" where
  "join sep [] = []"
| "join sep [p] = p"
| "join sep (p # q # ps) = p @ sep @ join sep (q # ps)"

section \<open>Data model (types/context.ts)\<close>

datatype EnvironmentType =
  Env_ide | Env_browser | Env_design | Env_document | Env_terminal | Env_mixed | Env_unknown

datatype ActivityType =
  Act_coding | Act_writing | Act_research | Act_design | Act_communication | Act_learning
  | Act_debugging | Act_idle

datatype ContextSource =
  Src_screenshot | Src_clipboard | Src_window_title | Src_application_state | Src_user_input
  | Src_temporal

fun environment_string :: "EnvironmentType \<Rightarrow> string" where
  "environment_string Env_ide = ''ide''"
| "environment_string Env_browser = ''browser''"
| "environment_string Env_design = ''design''"
| "environment_string Env_document = ''document''"
| "environment_string Env_terminal = ''terminal''"
| "environment_string Env_mixed = ''mixed''"
| "environment_string Env_unknown = ''unknown''"

fun activity_string :: "ActivityType \<Rightarrow> string" where
  "activity_string Act_coding = ''coding''"
| "activity_string Act_writing = ''writing''"
| "activity_string Act_research = ''research''"
| "activity_string Act_design = ''design''"
| "activity_string Act_communication = ''communication''"
| "activity_string Act_learning = ''learning''"
| "activity_string Act_debugging = ''debugging''"
| "activity_string Act_idle = ''idle''"

text \<open>
  \<open>UserAction\<close>; its \<open>details\<close> field has type \<open>any\<close> and is never read, it is kept as
  text.
\<close>

record UserAction =
  ua_type :: string
  ua_timestamp :: int
  ua_details :: string
  ua_context :: string

record SuggestedAction =
  action :: string
  sa_priority :: real
  reasoning :: string
  prerequisites :: "string list"
  expectedOutcome :: string

text \<open>
  \<open>ApplicationContext\<close>: the two mandatory fields and \<open>selectedText\<close>.  The other optional
  fields (\<open>applicationVersion\<close>, \<open>workspace\<close>, \<open>currentFile\<close>, \<open>cursorPosition\<close>,
  \<open>openTabs\<close>) are never written or read by the engines; \<open>recentActions\<close> is only ever
  the empty array.
\<close>

record ApplicationContext =
  activeApplication :: string
  windowTitle :: string
  selectedText :: "string option"
  recentActions :: "UserAction list"

text \<open>
  \<open>ContentAnalysis\<close>: six arrays.  The engines only take their lengths, so an element is
  represented by its \<open>content\<close> (or \<open>description\<close>, or \<open>tag\<close>) text.
\<close>

record ContentAnalysis =
  textContent :: "string list"
  codeSnippets :: "string list"
  uiElements :: "string list"
  mediaElements :: "string list"
  structuralElements :: "string list"
  semanticTags :: "string list"

datatype UrgencyLevel = Urg_low | Urg_medium | Urg_high | Urg_urgent

datatype ComplexityLevel = Cpx_simple | Cpx_moderate | Cpx_complex | Cpx_expert

record IntentAnalysis =
  primaryIntent :: string
  secondaryIntents :: "string list"
  urgencyLevel :: UrgencyLevel
  complexityLevel :: ComplexityLevel
  suggestedActions :: "SuggestedAction list"
  contextDependencies :: "string list"

record ScreenContext =
  sc_id :: string
  timestamp :: int
  environment :: EnvironmentType
  activity :: ActivityType
  confidence :: real
  applicationDetails :: ApplicationContext
  visibleContent :: ContentAnalysis
  userIntent :: IntentAnalysis
  contextSources :: "ContextSource list"

record ContextOutcome =
  success :: bool
  metric :: string
  co_value :: real
  feedback :: string

record ContextSnapshot =
  ss_context :: ScreenContext
  userActions :: "UserAction list"
  outcomes :: "ContextOutcome list"
  duration :: int

record ContextTrigger =
  ct_type :: string
  condition :: string
  weight :: real

record PatternOutcome =
  po_pattern :: string
  po_frequency :: nat
  successRate :: real
  averageValue :: real

record ContextPattern =
  cp_id :: string
  cp_name :: string
  frequency :: nat
  contexts :: "ScreenContext list"
  triggers :: "ContextTrigger list"
  cp_outcomes :: "PatternOutcome list"
  cp_confidence :: real

datatype CompressionStrategy = Cs_none | Cs_summarize | Cs_aggregate

record ContextMemoryConfig =
  maxHistorySize :: int
  patternDetectionThreshold :: int
  contextRetentionPeriod :: int
  compressionStrategy :: CompressionStrategy

section \<open>Context Memory (engines/ContextMemory.ts)\<close>

text \<open>
  The two mutable members of the class: the history array and the pattern map.  The map
  is an association list in insertion order.
\<close>

record ContextMemory =
  contextHistory :: "ContextSnapshot list"
  contextPatterns :: "(string \<times> ContextPattern) list"

text \<open>\<open>Map.prototype.set\<close>: a present key keeps its place, a new key goes last.\<close>

fun map_set :: "'k \<Rightarrow> 'v \<Rightarrow> ('k \<times> 'v) list \<Rightarrow> ('k \<times> 'v) list" where
  "map_set k v [] = [(k, v)]"
| "map_set k v ((k', v') # m) = (if k' = k then (k, v) # m else (k', v') # map_set k v m)"

text \<open>
  \<open>calculateRelevanceScore\<close>: three equality terms, the recency and the historical
  confidence, each with its weight; the sum is capped at \<open>1\<close>.
\<close>

definition calculateRelevanceScore :: "ScreenContext \<Rightarrow> ScreenContext \<Rightarrow> real" where
  "calculateRelevanceScore current historical =
     (let score = 0;
          score = (if environment current = environment historical then score + 0.3 else score);
          score = (if activity current = activity historical then score + 0.25 else score);
          score = (if activeApplication (applicationDetails current)
                      = activeApplication (applicationDetails historical)
                   then score + 0.2 else score);
          timeDiff = timestamp current - timestamp historical;
          maxTime = 24 * 60 * 60 * 1000;
          timeScore = max 0 (1 - real_of_int timeDiff / real_of_int maxTime);
          score = score + timeScore * 0.15;
          score = score + confidence historical * 0.1
      in min 1 score)"

text \<open>\<open>identifyTriggers\<close>: an application trigger when the name is not empty, then the
  environment trigger.\<close>

definition identifyTriggers :: "ContextSnapshot \<Rightarrow> ContextTrigger list" where
  "identifyTriggers snapshot =
     (let c = ss_context snapshot;
          app = activeApplication (applicationDetails c)
      in (if app \<noteq> [] then [\<lparr>ct_type = ''application'', condition = ''app='' @ app, weight = 0.8\<rparr>]
          else [])
         @ [\<lparr>ct_type = ''environment'',
              condition = ''env='' @ environment_string (environment c), weight = 0.6\<rparr>])"

text \<open>
  \<open>updatePatterns\<close>: one combined key \<open><environment>-<activity>\<close>; a new key gets a
  pattern of frequency 1 and confidence 0.1, a known key has its pattern updated in
  place.
\<close>

definition updatePatterns ::
  "ContextSnapshot \<Rightarrow> (string \<times> ContextPattern) list \<Rightarrow> (string \<times> ContextPattern) list" where
  "updatePatterns snapshot patterns =
     (let c = ss_context snapshot;
          patternKey = environment_string (environment c) @ ''-'' @ activity_string (activity c)
      in case map_of patterns patternKey of
           None \<Rightarrow>
             map_set patternKey
               \<lparr>cp_id = patternKey,
                cp_name = environment_string (environment c) @ '' ''
                          @ activity_string (activity c) @ '' pattern'',
                frequency = 1,
                contexts = [c],
                triggers = identifyTriggers snapshot,
                cp_outcomes = [],
                cp_confidence = 0.1\<rparr> patterns
         | Some existingPattern \<Rightarrow>
             map_set patternKey
               (existingPattern
                  \<lparr>frequency := frequency existingPattern + 1,
                   contexts := contexts existingPattern @ [c],
                   cp_confidence := min 1 (real (frequency existingPattern + 1) / 10)\<rparr>)
               patterns)"

text \<open>
  \<open>addContextSnapshot\<close>: push, then cut the history to its last \<open>maxHistorySize\<close>
  entries with \<open>slice(-maxHistorySize)\<close> when it is longer, then update the patterns.
\<close>

definition addContextSnapshot ::
  "ContextMemoryConfig \<Rightarrow> ContextMemory \<Rightarrow> ScreenContext \<Rightarrow> UserAction list
     \<Rightarrow> ContextOutcome list \<Rightarrow> int \<Rightarrow> ContextMemory" where
  "addContextSnapshot config mem c acts outs dur =
     (let snapshot = \<lparr>ss_context = c, userActions = acts, outcomes = outs, duration = dur\<rparr>;
          history = contextHistory mem @ [snapshot];
          history = (if int (length history) > maxHistorySize config
                     then slice_from history (- maxHistorySize config) else history)
      in \<lparr>contextHistory = history,
          contextPatterns = updatePatterns snapshot (contextPatterns mem)\<rparr>)"

text \<open>
  \<open>getRelevantContext\<close>: filter out the query's id, score, sort by descending score
  (\<open>Array.prototype.sort\<close> is stable, as \<^const>\<open>sort_key\<close> is), keep
  \<open>slice(0, maxResults)\<close>.
\<close>

definition getRelevantContext ::
  "ContextMemory \<Rightarrow> ScreenContext \<Rightarrow> int \<Rightarrow> ContextSnapshot list" where
  "getRelevantContext mem currentContext maxResults =
     (let kept = filter (\<lambda>snapshot. sc_id (ss_context snapshot) \<noteq> sc_id currentContext)
                   (contextHistory mem);
          scored = map (\<lambda>snapshot.
                     (snapshot, calculateRelevanceScore currentContext (ss_context snapshot))) kept;
          ranked = sort_key (\<lambda>item. - snd item) scored
      in map fst (slice ranked 0 maxResults))"

text \<open>\<open>cleanup\<close> at the clock value \<open>now\<close>.\<close>

definition cleanup :: "ContextMemoryConfig \<Rightarrow> int \<Rightarrow> ContextMemory \<Rightarrow> ContextMemory" where
  "cleanup config now mem =
     (let cutoffTime = now - contextRetentionPeriod config
      in mem\<lparr>contextHistory :=
               filter (\<lambda>snapshot. timestamp (ss_context snapshot) > cutoffTime)
                 (contextHistory mem)\<rparr>)"

subsection \<open>Pattern mining\<close>

text \<open>
  The three miners group the history in a fresh \<open>Map\<close>: a key is entered at its first
  snapshot, and every snapshot is pushed onto the array of its key.
\<close>

fun group_add :: "'k \<Rightarrow> 'v \<Rightarrow> ('k \<times> 'v list) list \<Rightarrow> ('k \<times> 'v list) list" where
  "group_add k v [] = [(k, [v])]"
| "group_add k v ((k', vs) # m) =
     (if k' = k then (k', vs @ [v]) # m else (k', vs) # group_add k v m)"

definition group_by :: "('v \<Rightarrow> 'k) \<Rightarrow> 'v list \<Rightarrow> ('k \<times> 'v list) list" where
  "group_by key xs = foldl (\<lambda>m x. group_add (key x) x m) [] xs"

text \<open>Decimal digits of a number, as a template literal prints it.\<close>

definition digit_char :: "nat \<Rightarrow> char" where
  "digit_char d = char_of (d + 48)"

fun number_string :: "nat \<Rightarrow> string" where
  "number_string n =
     (if 10 \<le> n then number_string (n div 10) @ [digit_char (n mod 10)] else [digit_char n])"

text \<open>The equation is recursive on a variable: it is unfolded on request only.\<close>

declare number_string.simps [simp del]

definition integer_string :: "int \<Rightarrow> string" where
  "integer_string i = (if 0 \<le> i then number_string (nat i) else CHR ''-'' # number_string (nat (- i)))"

definition extractCommonTriggers :: "ContextSnapshot list \<Rightarrow> ContextTrigger list" where
  "extractCommonTriggers snapshots =
     (case snapshots of
        [] \<Rightarrow> []
      | first # _ \<Rightarrow>
          [\<lparr>ct_type = ''environment'',
            condition = ''environment='' @ environment_string (environment (ss_context first)),
            weight = 0.7\<rparr>])"

record OutcomeStats =
  os_count :: nat
  successes :: nat
  totalValue :: real

fun stats_add :: "ContextOutcome \<Rightarrow> (string \<times> OutcomeStats) list \<Rightarrow> (string \<times> OutcomeStats) list"
  where
  "stats_add outcome [] =
     [(metric outcome,
       \<lparr>os_count = 1, successes = (if success outcome then 1 else 0),
        totalValue = co_value outcome\<rparr>)]"
| "stats_add outcome ((k, stats) # m) =
     (if k = metric outcome
      then (k, \<lparr>os_count = os_count stats + 1,
                successes = (if success outcome then successes stats + 1 else successes stats),
                totalValue = totalValue stats + co_value outcome\<rparr>) # m
      else (k, stats) # stats_add outcome m)"

definition extractCommonOutcomes :: "ContextSnapshot list \<Rightarrow> PatternOutcome list" where
  "extractCommonOutcomes snapshots =
     (let outcomeMap = foldl (\<lambda>m outcome. stats_add outcome m) []
                         (concat (map outcomes snapshots))
      in map (\<lambda>(metric_name, stats).
                \<lparr>po_pattern = metric_name,
                 po_frequency = os_count stats,
                 successRate = real (successes stats) / real (os_count stats),
                 averageValue = totalValue stats / real (os_count stats)\<rparr>) outcomeMap)"

definition identifyEnvironmentPatterns ::
  "ContextMemoryConfig \<Rightarrow> ContextMemory \<Rightarrow> ContextPattern list" where
  "identifyEnvironmentPatterns config mem =
     map (\<lambda>(env, snapshots).
            \<lparr>cp_id = ''env-'' @ environment_string env,
             cp_name = environment_string env @ '' environment pattern'',
             frequency = length snapshots,
             contexts = map ss_context snapshots,
             triggers = extractCommonTriggers snapshots,
             cp_outcomes = extractCommonOutcomes snapshots,
             cp_confidence = min 1 (real (length snapshots) / 20)\<rparr>)
       (filter (\<lambda>(env, snapshots). int (length snapshots) \<ge> patternDetectionThreshold config)
          (group_by (\<lambda>snapshot. environment (ss_context snapshot)) (contextHistory mem)))"

definition identifyActivityPatterns ::
  "ContextMemoryConfig \<Rightarrow> ContextMemory \<Rightarrow> ContextPattern list" where
  "identifyActivityPatterns config mem =
     map (\<lambda>(act, snapshots).
            \<lparr>cp_id = ''activity-'' @ activity_string act,
             cp_name = activity_string act @ '' activity pattern'',
             frequency = length snapshots,
             contexts = map ss_context snapshots,
             triggers = extractCommonTriggers snapshots,
             cp_outcomes = extractCommonOutcomes snapshots,
             cp_confidence = min 1 (real (length snapshots) / 15)\<rparr>)
       (filter (\<lambda>(act, snapshots). int (length snapshots) \<ge> patternDetectionThreshold config)
          (group_by (\<lambda>snapshot. activity (ss_context snapshot)) (contextHistory mem)))"

text \<open>
  The hour of a timestamp is \<open>new Date(timestamp).getHours()\<close>, the hour of the day in
  the time zone of the host: the argument \<open>getHours\<close>.  In the zone UTC it is
  \<open>utc_hours\<close>.
\<close>

definition utc_hours :: "int \<Rightarrow> nat" where
  "utc_hours t = nat ((t div 3600000) mod 24)"

definition identifyTemporalPatterns ::
  "ContextMemoryConfig \<Rightarrow> (int \<Rightarrow> nat) \<Rightarrow> ContextMemory \<Rightarrow> ContextPattern list" where
  "identifyTemporalPatterns config getHours mem =
     map (\<lambda>(hour, snapshots).
            \<lparr>cp_id = ''time-'' @ number_string hour,
             cp_name = number_string hour @ '':00 temporal pattern'',
             frequency = length snapshots,
             contexts = map ss_context snapshots,
             triggers = [\<lparr>ct_type = ''temporal'',
                          condition = ''hour='' @ number_string hour, weight = 1\<rparr>],
             cp_outcomes = extractCommonOutcomes snapshots,
             cp_confidence = min 1 (real (length snapshots) / 10)\<rparr>)
       (filter (\<lambda>(hour, snapshots). int (length snapshots) \<ge> patternDetectionThreshold config)
          (group_by (\<lambda>snapshot. getHours (timestamp (ss_context snapshot)))
             (contextHistory mem)))"

text \<open>
  \<open>identifyPatterns\<close> returns the three families one after the other and stores every
  pattern in the map under its id.
\<close>

definition identifyPatterns ::
  "ContextMemoryConfig \<Rightarrow> (int \<Rightarrow> nat) \<Rightarrow> ContextMemory \<Rightarrow> ContextPattern list \<times> ContextMemory"
  where
  "identifyPatterns config getHours mem =
     (let found = identifyEnvironmentPatterns config mem
                  @ identifyActivityPatterns config mem
                  @ identifyTemporalPatterns config getHours mem
      in (found,
          mem\<lparr>contextPatterns :=
                foldl (\<lambda>m pattern. map_set (cp_id pattern) pattern m) (contextPatterns mem)
                  found\<rparr>))"

section \<open>Context Synthesizer (engines/ContextSynthesizer.ts)\<close>

datatype ExpertiseLevel = Exp_beginner | Exp_intermediate | Exp_advanced | Exp_expert


record Tool =
  tool_name :: string
  tool_version :: string
  capabilities :: "string list"
  integrations :: "string list"

record Convention =
  cv_type :: string
  cv_description :: string
  importance :: real
  cv_examples :: "string list"

record DomainPattern =
  dp_name :: string
  dp_description :: string
  dp_frequency :: real
  dp_examples :: "string list"

record Resource =
  rs_name :: string
  rs_type :: string
  url :: "string option"
  rs_description :: string
  rs_relevance :: real

record DomainContext =
  domain :: string
  expertise :: ExpertiseLevel
  tools :: "Tool list"
  conventions :: "Convention list"
  patterns :: "DomainPattern list"
  resources :: "Resource list"

record Action =
  ac_id :: string
  ac_type :: string
  ac_description :: string
  priority :: real
  dependencies :: "string list"
  estimatedImpact :: real

record ContextQualityMetrics =
  accuracy :: real
  completeness :: real
  relevance :: real
  timeliness :: real
  actionability :: real
  overallScore :: real

record ConfidenceFactor =
  factor :: string
  cf_weight :: real
  cf_value :: real
  cf_reasoning :: string

record SynthesisMetadata =
  processingTime :: int
  sourcesUsed :: "ContextSource list"
  modelsInvolved :: "string list"
  confidenceFactors :: "ConfidenceFactor list"

record EngineeredContext =
  ec_id :: string
  ec_timestamp :: int
  situationalContext :: string
  relevantHistory :: "ContextSnapshot list"
  domainSpecificInfo :: DomainContext
  ec_suggestedActions :: "Action list"
  contextQuality :: ContextQualityMetrics
  synthesisMetadata :: SynthesisMetadata

text \<open>The five weights of \<open>weightContextElements\<close>.\<close>

record ContextWeights =
  w_environment :: real
  w_activity :: real
  w_application :: real
  w_content :: real
  w_intent :: real

text \<open>
  The lookup tables give no entry for \<open>mixed\<close>, and none for \<open>communication\<close> and
  \<open>learning\<close>: there \<open>|| 0.5\<close> applies.
\<close>

definition calculateEnvironmentWeight :: "ScreenContext \<Rightarrow> real" where
  "calculateEnvironmentWeight c =
     (case environment c of
        Env_ide \<Rightarrow> 0.9 | Env_browser \<Rightarrow> 0.8 | Env_terminal \<Rightarrow> 0.9 | Env_design \<Rightarrow> 0.8
      | Env_document \<Rightarrow> 0.7 | Env_unknown \<Rightarrow> 0.3 | Env_mixed \<Rightarrow> 0.5)"

definition calculateActivityWeight :: "ScreenContext \<Rightarrow> real" where
  "calculateActivityWeight c =
     (case activity c of
        Act_coding \<Rightarrow> 0.9 | Act_debugging \<Rightarrow> 0.9 | Act_writing \<Rightarrow> 0.8 | Act_research \<Rightarrow> 0.7
      | Act_design \<Rightarrow> 0.8 | Act_idle \<Rightarrow> 0.2 | Act_communication \<Rightarrow> 0.5 | Act_learning \<Rightarrow> 0.5)"

text \<open>A string, or an optional string, in a condition: absent and empty count as false.\<close>

definition truthy :: "string option \<Rightarrow> bool" where
  "truthy s = (case s of None \<Rightarrow> False | Some t \<Rightarrow> t \<noteq> [])"

definition calculateApplicationWeight :: "ScreenContext \<Rightarrow> real" where
  "calculateApplicationWeight c =
     (let w = 0.5;
          w = (if activeApplication (applicationDetails c) \<noteq> ''unknown'' then w + 0.2 else w);
          w = (if windowTitle (applicationDetails c) \<noteq> [] then w + 0.2 else w);
          w = (if truthy (selectedText (applicationDetails c)) then w + 0.1 else w)
      in min 1 w)"

definition calculateContentWeight :: "ScreenContext \<Rightarrow> real" where
  "calculateContentWeight c =
     (let content = visibleContent c;
          w = 0.3;
          w = w + real (length (textContent content)) * 0.02;
          w = w + real (length (codeSnippets content)) * 0.1;
          w = w + real (length (uiElements content)) * 0.01
      in min 1 w)"

definition calculateIntentWeight :: "ScreenContext \<Rightarrow> real" where
  "calculateIntentWeight c =
     (let intent = userIntent c;
          w = 0.4;
          w = (if primaryIntent intent \<noteq> ''unknown'' then w + 0.3 else w);
          w = w + real (length (suggestedActions intent)) * 0.1
      in min 1 w)"

definition weightContextElements :: "ScreenContext \<Rightarrow> ContextWeights" where
  "weightContextElements c =
     \<lparr>w_environment = calculateEnvironmentWeight c,
      w_activity = calculateActivityWeight c,
      w_application = calculateApplicationWeight c,
      w_content = calculateContentWeight c,
      w_intent = calculateIntentWeight c\<rparr>"

definition determineDomain :: "EnvironmentType \<Rightarrow> ActivityType \<Rightarrow> string" where
  "determineDomain env act =
     (if env = Env_ide \<or> act = Act_coding then ''development''
      else if env = Env_browser \<and> act = Act_research then ''research''
      else if env = Env_design then ''design''
      else if env = Env_document \<or> act = Act_writing then ''writing''
      else if env = Env_terminal then ''system-administration''
      else ''general'')"

definition getDefaultDomainContext :: "string \<Rightarrow> DomainContext" where
  "getDefaultDomainContext d =
     \<lparr>domain = d, expertise = Exp_intermediate, tools = [], conventions = [], patterns = [],
      resources = []\<rparr>"

text \<open>
  \<open>customizeDomainContext\<close> copies the base record shallowly and pushes onto its
  \<open>tools\<close> and \<open>patterns\<close> arrays, which the copy shares with the base.
\<close>

definition customizeDomainContext ::
  "DomainContext \<Rightarrow> EnvironmentType \<Rightarrow> ActivityType \<Rightarrow> DomainContext" where
  "customizeDomainContext base env act =
     (let customized = base;
          customized =
            (if env = Env_ide
             then customized\<lparr>tools := tools customized @
                    [\<lparr>tool_name = ''IDE'', tool_version = ''unknown'',
                      capabilities = [''editing'', ''debugging''], integrations = []\<rparr>]\<rparr>
             else customized);
          customized =
            (if act = Act_debugging
             then customized\<lparr>patterns := patterns customized @
                    [\<lparr>dp_name = ''debugging-workflow'',
                      dp_description = ''Common debugging patterns and practices'',
                      dp_frequency = 0.8,
                      dp_examples = [''breakpoint debugging'', ''log analysis'',
                                     ''step-through execution'']\<rparr>]\<rparr>
             else customized)
      in customized)"

text \<open>
  The knowledge base of the synthesizer is its one mutable member.  A domain found in it
  has its stored record grow with every customization (the arrays are shared); a domain
  not found gets a fresh default record, and the knowledge base stays as it is.
\<close>

type_synonym DomainKnowledge = "(string \<times> DomainContext) list"

definition initializeDomainKnowledge :: DomainKnowledge where
  "initializeDomainKnowledge =
     [(''development'',
       \<lparr>domain = ''development'', expertise = Exp_intermediate,
        tools =
          [\<lparr>tool_name = ''Git'', tool_version = ''2.0'', capabilities = [''version-control''],
            integrations = [''github'', ''gitlab'']\<rparr>,
           \<lparr>tool_name = ''NPM'', tool_version = ''8.0'', capabilities = [''package-management''],
            integrations = [''nodejs'']\<rparr>],
        conventions =
          [\<lparr>cv_type = ''naming'', cv_description = ''Use camelCase for variables'',
            importance = 0.8, cv_examples = [''userName'', ''isActive'']\<rparr>,
           \<lparr>cv_type = ''structure'', cv_description = ''Organize code in modules'',
            importance = 0.9, cv_examples = [''src/'', ''lib/'', ''components/'']\<rparr>],
        patterns =
          [\<lparr>dp_name = ''MVC'', dp_description = ''Model-View-Controller pattern'',
            dp_frequency = 0.7, dp_examples = [''express.js'', ''rails'']\<rparr>,
           \<lparr>dp_name = ''Component-based'', dp_description = ''Reusable component architecture'',
            dp_frequency = 0.8, dp_examples = [''React'', ''Vue'']\<rparr>],
        resources =
          [\<lparr>rs_name = ''MDN'', rs_type = ''documentation'',
            url = Some ''https://developer.mozilla.org'',
            rs_description = ''Web development docs'', rs_relevance = 0.9\<rparr>,
           \<lparr>rs_name = ''Stack Overflow'', rs_type = ''community'',
            url = Some ''https://stackoverflow.com'',
            rs_description = ''Programming Q&A'', rs_relevance = 0.8\<rparr>]\<rparr>)]"

definition buildDomainContext ::
  "DomainKnowledge \<Rightarrow> EnvironmentType \<Rightarrow> ActivityType \<Rightarrow> DomainContext \<times> DomainKnowledge" where
  "buildDomainContext knowledge env act =
     (let d = determineDomain env act
      in case map_of knowledge d of
           Some base \<Rightarrow>
             (let customized = customizeDomainContext base env act
              in (customized, map_set d customized knowledge))
         | None \<Rightarrow> (customizeDomainContext (getDefaultDomainContext d) env act, knowledge))"

text \<open>
  \<open>generateSituationalDescription\<close>; the second argument, the weights, is not read.
  The double quote is \<^term>\<open>CHR 0x22\<close>.
\<close>

definition generateSituationalDescription :: "ScreenContext \<Rightarrow> ContextWeights \<Rightarrow> string" where
  "generateSituationalDescription c weights =
     (let parts = [''User is working in a '' @ environment_string (environment c)
                   @ '' environment''];
          parts = (if activity c \<noteq> Act_idle
                   then parts @ [''currently engaged in '' @ activity_string (activity c)]
                   else parts);
          parts = (if activeApplication (applicationDetails c) \<noteq> ''unknown''
                   then parts @ [''using '' @ activeApplication (applicationDetails c)]
                   else parts);
          parts = (if windowTitle (applicationDetails c) \<noteq> []
                   then (let cleanTitle = substring0 (windowTitle (applicationDetails c)) 50
                         in parts @ [''with focus on '' @ [CHR 0x22] @ cleanTitle
                                     @ (if length cleanTitle \<ge> 50 then ''...'' else [])
                                     @ [CHR 0x22]])
                   else parts);
          parts = (if length (codeSnippets (visibleContent c)) > 0
                   then parts @ [''with code content visible'']
                   else parts);
          confidenceLevel = (if confidence c > 0.8 then ''high''
                             else if confidence c > 0.5 then ''moderate'' else ''low'');
          parts = parts @ [''('' @ confidenceLevel @ '' confidence)'']
      in join '' '' parts)"

text \<open>
  \<open>calculateHistoricalRelevance\<close>: three equality terms and a recency term of weight
  \<open>0.25\<close>; the historical confidence is not read and the sum is not capped.
\<close>

definition calculateHistoricalRelevance :: "ScreenContext \<Rightarrow> ScreenContext \<Rightarrow> real" where
  "calculateHistoricalRelevance current historical =
     (let r = 0;
          r = (if environment current = environment historical then r + 0.3 else r);
          r = (if activity current = activity historical then r + 0.25 else r);
          r = (if activeApplication (applicationDetails current)
                  = activeApplication (applicationDetails historical)
               then r + 0.2 else r);
          timeDiff = timestamp current - timestamp historical;
          timeWeight = max 0 (1 - real_of_int timeDiff / real_of_int (24 * 60 * 60 * 1000));
          r = r + timeWeight * 0.25
      in r)"

definition selectRelevantHistory ::
  "ScreenContext \<Rightarrow> ContextSnapshot list \<Rightarrow> int \<Rightarrow> ContextSnapshot list" where
  "selectRelevantHistory currentContext history maxResults =
     (if length history = 0 then []
      else
        (let scoredHistory =
               map (\<lambda>snapshot.
                      (snapshot, calculateHistoricalRelevance currentContext (ss_context snapshot)))
                 history
         in map fst (slice (sort_key (\<lambda>item. - snd item) scoredHistory) 0 maxResults)))"


text \<open>Actions: from the intent (numbered from 0), from the domain, from the environment;
  then a stable sort by descending \<open>priority * estimatedImpact\<close>.\<close>

definition generateDomainActions :: "ScreenContext \<Rightarrow> DomainContext \<Rightarrow> Action list" where
  "generateDomainActions c domainContext =
     (if domain domainContext = ''development'' \<and> activity c = Act_coding
      then [\<lparr>ac_id = ''code_review'', ac_type = ''development'',
             ac_description = ''Review and optimize current code'', priority = 2,
             dependencies = [], estimatedImpact = 0.8\<rparr>]
      else [])"

definition generateEnvironmentActions :: "ScreenContext \<Rightarrow> Action list" where
  "generateEnvironmentActions c =
     (if environment c = Env_ide
      then [\<lparr>ac_id = ''analyze_code_context'', ac_type = ''environment'',
             ac_description = ''Analyze visible code for suggestions'', priority = 1,
             dependencies = [], estimatedImpact = 0.7\<rparr>]
      else [])"

definition generateContextualActions ::
  "ScreenContext \<Rightarrow> DomainContext \<Rightarrow> IntentAnalysis option \<Rightarrow> Action list" where
  "generateContextualActions c domainContext intent =
     (let actions =
            (case intent of
               None \<Rightarrow> []
             | Some i \<Rightarrow>
                 map (\<lambda>(index, suggestion).
                        \<lparr>ac_id = ''intent_action_'' @ number_string index,
                         ac_type = ''user-intent'',
                         ac_description = action suggestion,
                         priority = sa_priority suggestion,
                         dependencies = prerequisites suggestion,
                         estimatedImpact = 0.7\<rparr>)
                   (enumerate 0 (suggestedActions i)));
          actions = actions @ generateDomainActions c domainContext;
          actions = actions @ generateEnvironmentActions c
      in sort_key (\<lambda>a. - (priority a * estimatedImpact a)) actions)"

subsection \<open>Quality metrics\<close>

definition calculateCompleteness :: "ScreenContext \<Rightarrow> DomainContext \<Rightarrow> real" where
  "calculateCompleteness c domainContext =
     (let r = 0.4;
          r = (if environment c \<noteq> Env_unknown then r + 0.15 else r);
          r = (if activity c \<noteq> Act_idle then r + 0.15 else r);
          r = (if activeApplication (applicationDetails c) \<noteq> ''unknown'' then r + 0.1 else r);
          r = (if windowTitle (applicationDetails c) \<noteq> [] then r + 0.1 else r);
          r = (if length (tools domainContext) > 0 then r + 0.1 else r)
      in r)"

definition calculateRelevance ::
  "ScreenContext \<Rightarrow> DomainContext \<Rightarrow> ContextSnapshot list \<Rightarrow> real" where
  "calculateRelevance c domainContext history =
     (let r = 0.5;
          r = (if domain domainContext \<noteq> ''general'' then r + 0.2 else r);
          r = (if length history > 0 then r + min 0.2 (real (length history) * 0.05) else r);
          r = r + confidence c * 0.1
      in r)"

text \<open>\<open>calculateTimeliness\<close> at the clock value \<open>now\<close>.\<close>

definition calculateTimeliness :: "int \<Rightarrow> ScreenContext \<Rightarrow> real" where
  "calculateTimeliness now c =
     (let age = now - timestamp c;
          maxAge = 5 * 60 * 1000
      in max 0 (1 - real_of_int age / real_of_int maxAge))"

definition calculateActionability :: "ScreenContext \<Rightarrow> DomainContext \<Rightarrow> real" where
  "calculateActionability c domainContext =
     (let r = 0.3;
          r = r + real (length (suggestedActions (userIntent c))) * 0.1;
          r = r + real (length (tools domainContext)) * 0.05;
          r = (if environment c \<noteq> Env_unknown then r + 0.2 else r)
      in min 1 r)"

text \<open>
  \<open>assessContextQuality\<close>: the overall score is formed from the five values as they are
  computed, before each is cut at \<open>1\<close> for the record.
\<close>

definition assessContextQuality ::
  "int \<Rightarrow> ScreenContext \<Rightarrow> DomainContext \<Rightarrow> ContextSnapshot list \<Rightarrow> ContextQualityMetrics"
  where
  "assessContextQuality now c domainContext history =
     (let accuracy_v = confidence c * 0.8 + (real (length (contextSources c)) / 5) * 0.2;
          completeness_v = calculateCompleteness c domainContext;
          relevance_v = calculateRelevance c domainContext history;
          timeliness_v = calculateTimeliness now c;
          actionability_v = calculateActionability c domainContext;
          overall = accuracy_v * 0.25 + completeness_v * 0.2 + relevance_v * 0.2
                    + timeliness_v * 0.15 + actionability_v * 0.2
      in \<lparr>accuracy = min 1 accuracy_v,
          completeness = min 1 completeness_v,
          relevance = min 1 relevance_v,
          timeliness = min 1 timeliness_v,
          actionability = min 1 actionability_v,
          overallScore = min 1 overall\<rparr>)"

definition createSynthesisMetadata :: "int \<Rightarrow> int \<Rightarrow> ContextSource list \<Rightarrow> SynthesisMetadata"
  where
  "createSynthesisMetadata now startTime sources =
     \<lparr>processingTime = now - startTime,
      sourcesUsed = sources,
      modelsInvolved = [''context-analyzer'', ''domain-synthesizer''],
      confidenceFactors =
        [\<lparr>factor = ''source-diversity'', cf_weight = 0.3,
          cf_value = real (length sources) / 5,
          cf_reasoning = ''Multiple sources increase reliability''\<rparr>,
         \<lparr>factor = ''domain-match'', cf_weight = 0.4, cf_value = 0.8,
          cf_reasoning = ''Strong domain knowledge available''\<rparr>,
         \<lparr>factor = ''historical-context'', cf_weight = 0.3, cf_value = 0.6,
          cf_reasoning = ''Some relevant history available''\<rparr>]\<rparr>"

text \<open>
  \<open>synthesizeContext\<close> reads the clock five times (start, id, timeliness, metadata,
  timestamp) and draws a random suffix for the id: the record \<open>Readings\<close>.  None of its
  steps throws on a well-typed input, so the handler that wraps a failure is never
  entered and the result is the engineered context together with the knowledge base as
  the call leaves it.
\<close>

record Readings =
  t_start :: int
  t_id :: int
  t_quality :: int
  t_metadata :: int
  t_stamp :: int
  random_suffix :: string

definition synthesizeContext ::
  "DomainKnowledge \<Rightarrow> Readings \<Rightarrow> ScreenContext \<Rightarrow> ContextSnapshot list \<Rightarrow> IntentAnalysis option
     \<Rightarrow> EngineeredContext \<times> DomainKnowledge" where
  "synthesizeContext knowledge rd currentScreen history intent =
     (let contextId = ''engineered_'' @ integer_string (t_id rd) @ ''_'' @ random_suffix rd;
          weightedContext = weightContextElements currentScreen;
          (domainContext, knowledge') =
             buildDomainContext knowledge (environment currentScreen) (activity currentScreen);
          situational = generateSituationalDescription currentScreen weightedContext;
          selected = selectRelevantHistory currentScreen history 5;
          actions = generateContextualActions currentScreen domainContext intent;
          quality = assessContextQuality (t_quality rd) currentScreen domainContext selected;
          metadata = createSynthesisMetadata (t_metadata rd) (t_start rd)
                       (contextSources currentScreen)
      in (\<lparr>ec_id = contextId,
           ec_timestamp = t_stamp rd,
           situationalContext = situational,
           relevantHistory = selected,
           domainSpecificInfo = domainContext,
           ec_suggestedActions = actions,
           contextQuality = quality,
           synthesisMetadata = metadata\<rparr>, knowledge'))"

section \<open>Context Analyzer (engines/ContextAnalyzer.ts)\<close>

text \<open>The optional second argument of \<open>analyzeScreenContext\<close>.\<close>

record AdditionalData =
  ad_windowTitle :: "string option"
  ad_activeApplication :: "string option"
  ad_clipboardContent :: "string option"
  ad_selectedText :: "string option"

text \<open>\<open>additionalData?.field\<close>.\<close>

definition opt_field :: "('a \<Rightarrow> string option) \<Rightarrow> 'a option \<Rightarrow> string option" where
  "opt_field f d = (case d of None \<Rightarrow> None | Some r \<Rightarrow> f r)"

text \<open>\<open>value || fallback\<close> on an optional string.\<close>

definition or_else :: "string option \<Rightarrow> string \<Rightarrow> string" where
  "or_else s fallback = (case s of None \<Rightarrow> fallback | Some t \<Rightarrow> if t = [] then fallback else t)"

definition ideIndicators :: "string list" where
  "ideIndicators = [''visual studio'', ''vscode'', ''intellij'', ''pycharm'', ''webstorm'',
                    ''sublime'', ''atom'', ''vim'', ''emacs'', ''code'', ''jetbrains'']"

definition browserIndicators :: "string list" where
  "browserIndicators = [''chrome'', ''firefox'', ''safari'', ''edge'', ''opera'', ''browser'']"

definition designIndicators :: "string list" where
  "designIndicators = [''figma'', ''sketch'', ''photoshop'', ''illustrator'', ''indesign'',
                       ''xd'', ''canva'', ''affinity'']"

definition documentIndicators :: "string list" where
  "documentIndicators = [''word'', ''docs'', ''pages'', ''writer'', ''document'', ''notion'',
                         ''obsidian'', ''typora'', ''markdown'']"

definition terminalIndicators :: "string list" where
  "terminalIndicators = [''terminal'', ''iterm'', ''cmd'', ''powershell'', ''bash'', ''zsh'',
                         ''command'', ''console'']"

text \<open>\<open>indicators.some(indicator => title.includes(indicator) || app.includes(indicator))\<close>.\<close>

definition some_indicator :: "string list \<Rightarrow> string \<Rightarrow> string \<Rightarrow> bool" where
  "some_indicator indicators title app =
     list_ex (\<lambda>indicator. js_includes title indicator \<or> js_includes app indicator) indicators"

definition isIdeEnvironment :: "string \<Rightarrow> string \<Rightarrow> bool" where
  "isIdeEnvironment title app = some_indicator ideIndicators title app"

definition isBrowserEnvironment :: "string \<Rightarrow> string \<Rightarrow> bool" where
  "isBrowserEnvironment title app = some_indicator browserIndicators title app"

definition isDesignEnvironment :: "string \<Rightarrow> string \<Rightarrow> bool" where
  "isDesignEnvironment title app = some_indicator designIndicators title app"

definition isDocumentEnvironment :: "string \<Rightarrow> string \<Rightarrow> bool" where
  "isDocumentEnvironment title app = some_indicator documentIndicators title app"

definition isTerminalEnvironment :: "string \<Rightarrow> string \<Rightarrow> bool" where
  "isTerminalEnvironment title app = some_indicator terminalIndicators title app"

record EnvironmentResult =
  er_type :: EnvironmentType
  er_confidence :: real
  er_indicators :: "string list"

record ActivityResult =
  ar_type :: ActivityType
  ar_confidence :: real
  ar_indicators :: "string list"

definition categorizeEnvironment :: "AdditionalData option \<Rightarrow> EnvironmentResult" where
  "categorizeEnvironment additionalData =
     (let conf = 0 in
      if truthy (opt_field ad_windowTitle additionalData)
         \<or> truthy (opt_field ad_activeApplication additionalData)
      then
        (let title = or_else (map_option toLowerCase (opt_field ad_windowTitle additionalData)) [];
             app = or_else (map_option toLowerCase (opt_field ad_activeApplication additionalData)) []
         in if isIdeEnvironment title app
            then \<lparr>er_type = Env_ide, er_confidence = conf + 0.4,
                  er_indicators = [''IDE application detected'']\<rparr>
            else if isBrowserEnvironment title app
            then \<lparr>er_type = Env_browser, er_confidence = conf + 0.3,
                  er_indicators = [''Browser application detected'']\<rparr>
            else if isDesignEnvironment title app
            then \<lparr>er_type = Env_design, er_confidence = conf + 0.4,
                  er_indicators = [''Design application detected'']\<rparr>
            else if isDocumentEnvironment title app
            then \<lparr>er_type = Env_document, er_confidence = conf + 0.3,
                  er_indicators = [''Document application detected'']\<rparr>
            else if isTerminalEnvironment title app
            then \<lparr>er_type = Env_terminal, er_confidence = conf + 0.4,
                  er_indicators = [''Terminal application detected'']\<rparr>
            else \<lparr>er_type = Env_unknown, er_confidence = 0.1,
                  er_indicators = [''Unable to determine environment'']\<rparr>)
      else \<lparr>er_type = Env_unknown, er_confidence = 0.1,
            er_indicators = [''Unable to determine environment'']\<rparr>)"

text \<open>
  The two content tests of the analyzer, \<open>isCodeContent\<close> and \<open>isWritingContent\<close>, are
  searches with regular expressions of the JavaScript engine.  They are arguments of the
  model: a record of the two predicates.
\<close>

record ContentTests =
  isCodeContent :: "string \<Rightarrow> bool"
  isWritingContent :: "string \<Rightarrow> bool"

definition categorizeUserActivity :: "ContentTests \<Rightarrow> AdditionalData option \<Rightarrow> ActivityResult"
  where
  "categorizeUserActivity tests additionalData =
     (let conf = 0 in
      if truthy (opt_field ad_selectedText additionalData)
      then
        (let selected = toLowerCase (or_else (opt_field ad_selectedText additionalData) [])
         in if isCodeContent tests selected
            then \<lparr>ar_type = Act_coding, ar_confidence = conf + 0.3,
                  ar_indicators = [''Code content selected'']\<rparr>
            else if isWritingContent tests selected
            then \<lparr>ar_type = Act_writing, ar_confidence = conf + 0.2,
                  ar_indicators = [''Writing content detected'']\<rparr>
            else \<lparr>ar_type = Act_idle, ar_confidence = 0.1,
                  ar_indicators = [''Activity unclear'']\<rparr>)
      else \<lparr>ar_type = Act_idle, ar_confidence = 0.1, ar_indicators = [''Activity unclear'']\<rparr>)"

definition extractApplicationContext :: "AdditionalData option \<Rightarrow> ApplicationContext" where
  "extractApplicationContext additionalData =
     \<lparr>activeApplication = or_else (opt_field ad_activeApplication additionalData) ''unknown'',
      windowTitle = or_else (opt_field ad_windowTitle additionalData) [],
      selectedText = opt_field ad_selectedText additionalData,
      recentActions = []\<rparr>"

definition analyzeContent :: "string list \<Rightarrow> ContentAnalysis" where
  "analyzeContent screenshots =
     \<lparr>textContent = [], codeSnippets = [], uiElements = [], mediaElements = [],
      structuralElements = [], semanticTags = []\<rparr>"

definition analyzeUserIntent :: "ContentTests \<Rightarrow> AdditionalData option \<Rightarrow> IntentAnalysis" where
  "analyzeUserIntent tests additionalData =
     \<lparr>primaryIntent = ''unknown'',
      secondaryIntents = [],
      urgencyLevel = Urg_medium,
      complexityLevel = Cpx_moderate,
      suggestedActions =
        (if truthy (opt_field ad_selectedText additionalData)
            \<and> isCodeContent tests (or_else (opt_field ad_selectedText additionalData) [])
         then [\<lparr>action = ''analyze-code'', sa_priority = 1,
                reasoning = ''Code content detected in selection'', prerequisites = [],
                expectedOutcome = ''Code analysis and suggestions''\<rparr>]
         else []),
      contextDependencies = []\<rparr>"

record AnalysisResults =
  environmentType :: EnvironmentResult
  activityType :: ActivityResult
  applicationContext :: ApplicationContext
  contentAnalysis :: ContentAnalysis
  intentAnalysis :: IntentAnalysis

text \<open>
  \<open>calculateContextConfidence\<close> declares the weight table \<open>environment 0.3, activity 0.2,
  application 0.2, content 0.2, intent 0.1\<close> under the comment ``Weighted average of
  different confidence factors'', does not read it, and returns the placeholder after
  ``TODO: Implement proper confidence calculation''.
\<close>

definition calculateContextConfidence :: "AnalysisResults \<Rightarrow> real" where
  "calculateContextConfidence analysisResults = 0.7"

definition determineContextSources :: "AdditionalData option \<Rightarrow> ContextSource list" where
  "determineContextSources additionalData =
     [Src_screenshot]
     @ (if truthy (opt_field ad_windowTitle additionalData) then [Src_window_title] else [])
     @ (if truthy (opt_field ad_activeApplication additionalData)
        then [Src_application_state] else [])
     @ (if truthy (opt_field ad_selectedText additionalData) then [Src_user_input] else [])"

text \<open>
  \<open>analyzeScreenContext\<close>: \<open>contextId\<close> is the generated id, \<open>now\<close> the clock value of
  the timestamp.  No sub-analysis throws.  The returned context is also stored as the
  active context of the analyzer, its one mutable member.
\<close>

definition analyzeScreenContext ::
  "ContentTests \<Rightarrow> string \<Rightarrow> int \<Rightarrow> string list \<Rightarrow> AdditionalData option \<Rightarrow> ScreenContext" where
  "analyzeScreenContext tests contextId now screenshots additionalData =
     (let results =
            \<lparr>environmentType = categorizeEnvironment additionalData,
             activityType = categorizeUserActivity tests additionalData,
             applicationContext = extractApplicationContext additionalData,
             contentAnalysis = analyzeContent screenshots,
             intentAnalysis = analyzeUserIntent tests additionalData\<rparr>;
          conf = calculateContextConfidence results
      in \<lparr>sc_id = contextId,
          timestamp = now,
          environment = er_type (environmentType results),
          activity = ar_type (activityType results),
          confidence = conf,
          applicationDetails = applicationContext results,
          visibleContent = contentAnalysis results,
          userIntent = intentAnalysis results,
          contextSources = determineContextSources additionalData\<rparr>)"


section \<open>Prompt Engineer (engines/PromptEngineer.ts)\<close>

text \<open>
  The declarations of \<open>types/prompts.ts\<close> are read off the object literals of the
  engine.  The nine objectives are the keys of its \<open>outcomeMap\<close>.
\<close>

datatype PromptObjective =
  Obj_code_generation | Obj_problem_solving | Obj_analysis | Obj_explanation | Obj_optimization
  | Obj_debugging | Obj_research | Obj_creative | Obj_planning

record TemplateVariable =
  tv_name :: string
  tv_type :: string
  required :: bool
  tv_description :: string

record TemplateConstraint =
  tc_type :: string
  tc_constraint :: string
  tc_priority :: real

record TemplateMetadata =
  createdAt :: int
  updatedAt :: int
  tm_version :: string
  author :: string
  usageCount :: int
  tm_successRate :: real
  averageRating :: real

record PromptTemplate =
  pt_id :: string
  pt_name :: string
  pt_description :: string
  objective :: PromptObjective
  pt_domain :: string
  template :: string
  variables :: "TemplateVariable list"
  examples :: "string list"
  constraints :: "TemplateConstraint list"
  metadata :: TemplateMetadata










subsection \<open>Replacing a placeholder\<close>







subsection \<open>Optimization passes\<close>













section \<open>Contracts in the words of the specification, and example data\<close>

text \<open>
  The relevance contract of the specification, term by term: the three equality terms,
  the recency \<open>max(0, 1 - \<Delta>t/24h)\<close> and the cap at \<open>1\<close>.
\<close>

definition equality_terms :: "ScreenContext \<Rightarrow> ScreenContext \<Rightarrow> real" where
  "equality_terms current historical =
     (if environment current = environment historical then 0.3 else 0)
     + (if activity current = activity historical then 0.25 else 0)
     + (if activeApplication (applicationDetails current)
           = activeApplication (applicationDetails historical) then 0.2 else 0)"

definition recency :: "ScreenContext \<Rightarrow> ScreenContext \<Rightarrow> real" where
  "recency current historical =
     max 0 (1 - real_of_int (timestamp current - timestamp historical) / 86400000)"

definition relevance_contract :: "ScreenContext \<Rightarrow> ScreenContext \<Rightarrow> real" where
  "relevance_contract current historical =
     min 1 (equality_terms current historical + recency current historical * 0.15
            + confidence historical * 0.1)"

text \<open>Example data: contexts with empty content, and snapshots without actions.\<close>

definition example_context ::
  "string \<Rightarrow> int \<Rightarrow> EnvironmentType \<Rightarrow> ActivityType \<Rightarrow> real \<Rightarrow> string \<Rightarrow> string \<Rightarrow> ScreenContext"
  where
  "example_context cid t env act conf app title =
     \<lparr>sc_id = cid, timestamp = t, environment = env, activity = act, confidence = conf,
      applicationDetails = \<lparr>activeApplication = app, windowTitle = title, selectedText = None,
                             recentActions = []\<rparr>,
      visibleContent = \<lparr>textContent = [], codeSnippets = [], uiElements = [],
                         mediaElements = [], structuralElements = [], semanticTags = []\<rparr>,
      userIntent = \<lparr>primaryIntent = ''unknown'', secondaryIntents = [], urgencyLevel = Urg_medium,
                     complexityLevel = Cpx_moderate, suggestedActions = [],
                     contextDependencies = []\<rparr>,
      contextSources = [Src_screenshot]\<rparr>"

definition example_snapshot :: "ScreenContext \<Rightarrow> ContextSnapshot" where
  "example_snapshot c = \<lparr>ss_context = c, userActions = [], outcomes = [], duration = 0\<rparr>"

definition query_context :: ScreenContext where
  "query_context = example_context ''q'' 1700000000000 Env_ide Act_coding 0.7 ''Code'' ''main.ts''"

definition older_context :: ScreenContext where
  "older_context = example_context ''h1'' 1699956800000 Env_ide Act_coding 0.9 ''Code'' ''util.ts''"

definition browser_context :: ScreenContext where
  "browser_context =
     example_context ''h2'' 1699999000000 Env_browser Act_research 0.7 ''Firefox'' ''docs''"

definition vscode_request :: AdditionalData where
  "vscode_request =
     \<lparr>ad_windowTitle = Some ''main.ts - vscode'', ad_activeApplication = None,
      ad_clipboardContent = None, ad_selectedText = None\<rparr>"

text \<open>Content tests that find neither code nor prose, for examples without selected text.\<close>

definition no_content :: ContentTests where
  "no_content = \<lparr>isCodeContent = (\<lambda>text. False), isWritingContent = (\<lambda>text. False)\<rparr>"

definition empty_memory :: ContextMemory where
  "empty_memory = \<lparr>contextHistory = [], contextPatterns = []\<rparr>"

definition no_history_config :: ContextMemoryConfig where
  "no_history_config =
     \<lparr>maxHistorySize = 0, patternDetectionThreshold = 3, contextRetentionPeriod = 86400000,
      compressionStrategy = Cs_none\<rparr>"

definition mining_config :: ContextMemoryConfig where
  "mining_config =
     \<lparr>maxHistorySize = 100, patternDetectionThreshold = 2, contextRetentionPeriod = 86400000,
      compressionStrategy = Cs_none\<rparr>"

definition three_snapshots :: ContextMemory where
  "three_snapshots =
     \<lparr>contextHistory = [example_snapshot browser_context, example_snapshot query_context,
                         example_snapshot older_context],
      contextPatterns = []\<rparr>"

text \<open>
  The environment categorization in the words of the specification: the five vocabularies
  in their priority order, each with its environment and its confidence increment, and the
  first of them that matches.
\<close>

definition environment_vocabularies :: "(string list \<times> EnvironmentType \<times> real) list" where
  "environment_vocabularies =
     [(ideIndicators, Env_ide, 0.4),
      (browserIndicators, Env_browser, 0.3),
      (designIndicators, Env_design, 0.4),
      (documentIndicators, Env_document, 0.3),
      (terminalIndicators, Env_terminal, 0.4)]"

definition first_vocabulary :: "string \<Rightarrow> string \<Rightarrow> (EnvironmentType \<times> real) option" where
  "first_vocabulary title app =
     map_option snd
       (find (\<lambda>entry. some_indicator (fst entry) title app) environment_vocabularies)"

definition has_signal :: "AdditionalData option \<Rightarrow> bool" where
  "has_signal additionalData =
     (truthy (opt_field ad_windowTitle additionalData)
      \<or> truthy (opt_field ad_activeApplication additionalData))"

definition lowered :: "string option \<Rightarrow> string" where
  "lowered s = (case s of None \<Rightarrow> [] | Some t \<Rightarrow> toLowerCase t)"

text \<open>A window title of exactly fifty characters.\<close>

definition title_of_fifty :: string where
  "title_of_fifty = ''0123456789abcdefghij0123456789abcdefghij0123456789''"

text \<open>
  The accuracy as \<open>assessContextQuality\<close> computes it, and the weighted sum of the
  specification.  A context that lists all six kinds of source.
\<close>

definition accuracy_value :: "ScreenContext \<Rightarrow> real" where
  "accuracy_value c = confidence c * 0.8 + (real (length (contextSources c)) / 5) * 0.2"

definition weighted_sum :: "real \<Rightarrow> real \<Rightarrow> real \<Rightarrow> real \<Rightarrow> real \<Rightarrow> real" where
  "weighted_sum a c r t x = a * 0.25 + c * 0.2 + r * 0.2 + t * 0.15 + x * 0.2"

definition six_source_context :: ScreenContext where
  "six_source_context =
     (example_context ''six'' 0 Env_unknown Act_idle 1 ''unknown'' [])
       \<lparr>contextSources := [Src_screenshot, Src_clipboard, Src_window_title,
                           Src_application_state, Src_user_input, Src_temporal]\<rparr>"

definition six_source_quality :: ContextQualityMetrics where
  "six_source_quality =
     assessContextQuality 300000 six_source_context (getDefaultDomainContext ''general'') []"











section \<open>Relevance scoring of Memory and of the Synthesizer\<close>

text \<open>
  Claim C1, as stated, says that \<open>calculateRelevanceScore\<close> and
  \<open>calculateHistoricalRelevance\<close> return equal scores on equal inputs.  They do not: for
  a historical context of the same environment, activity and application, twelve hours
  older and of confidence \<open>0.9\<close>, Memory scores \<open>0.915\<close> and the Synthesizer \<open>0.875\<close>.
\<close>

theorem relevance_scores_differ:
  "calculateRelevanceScore query_context older_context = 0.915
   \<and> calculateHistoricalRelevance query_context older_context = 0.875"
  by (simp add: calculateRelevanceScore_def calculateHistoricalRelevance_def query_context_def
      older_context_def example_context_def)

text \<open>
  Claim C1, amended: Memory's \<open>calculateRelevanceScore\<close> is the relevance contract of the
  specification (equality terms \<open>0.3\<close>, \<open>0.25\<close>, \<open>0.2\<close>, recency times \<open>0.15\<close>,
  historical confidence times \<open>0.1\<close>, capped at \<open>1\<close>); the Synthesizer's
  \<open>calculateHistoricalRelevance\<close> has the same three equality terms, weighs the recency
  with \<open>0.25\<close>, has no confidence term and no cap.
\<close>

theorem relevance_formulas:
  "calculateRelevanceScore current historical = relevance_contract current historical
   \<and> calculateHistoricalRelevance current historical
       = equality_terms current historical + recency current historical * 0.25"
  by (simp add: calculateRelevanceScore_def calculateHistoricalRelevance_def
      relevance_contract_def equality_terms_def recency_def Let_def)

section \<open>The overall confidence of the Analyzer\<close>

lemma ev_vscode: "categorizeEnvironment (Some vscode_request)
   = \<lparr>er_type = Env_ide, er_confidence = 0.4, er_indicators = [''IDE application detected'']\<rparr>"
  by code_simp

text \<open>
  Claim C2 asks that the confidence of the returned context be a function of the five
  sub-results that is not constant.  The code returns \<open>0.7\<close> for every request: a
  request whose window title names vscode (environment confidence \<open>0.4\<close>) and a request
  without auxiliary data (environment confidence \<open>0.1\<close>) get the same overall confidence.
\<close>

theorem confidence_is_placeholder:
  "er_confidence (categorizeEnvironment (Some vscode_request)) = 0.4
   \<and> er_confidence (categorizeEnvironment None) = 0.1
   \<and> confidence (analyzeScreenContext tests cid now shots (Some vscode_request)) = 0.7
   \<and> confidence (analyzeScreenContext tests cid now shots None) = 0.7"
proof -
  have a: "er_confidence (categorizeEnvironment (Some vscode_request)) = 0.4"
    by (simp add: ev_vscode)
  have b: "er_confidence (categorizeEnvironment None) = 0.1"
    by (simp add: categorizeEnvironment_def opt_field_def truthy_def)
  have c: "confidence (analyzeScreenContext tests cid now shots ad) = 0.7" for ad
    by (simp add: analyzeScreenContext_def calculateContextConfidence_def Let_def)
  show ?thesis using a b c by simp
qed

section \<open>Retention in Context Memory\<close>

text \<open>
  Claim C3 asks that the history never be longer than the configured maximum after a
  record.  With a maximum of \<open>0\<close> the code keeps the recorded snapshot:
  \<open>slice(-0)\<close> is \<open>slice(0)\<close>, the whole array.
\<close>

theorem history_limit_zero_not_enforced:
  "contextHistory (addContextSnapshot no_history_config empty_memory query_context [] [] 0)
     = [example_snapshot query_context]
   \<and> int (length (contextHistory
          (addContextSnapshot no_history_config empty_memory query_context [] [] 0)))
       > maxHistorySize no_history_config"
  by (simp add: addContextSnapshot_def no_history_config_def empty_memory_def slice_from_def
      relative_index_def example_snapshot_def Let_def)

text \<open>
  For a maximum of at least \<open>1\<close> the bound holds after every record, whatever the
  memory was before, and the entries kept are the newest; and after a cleanup no kept
  snapshot is older than the cutoff.
\<close>

lemma addContextSnapshot_history:
  "contextHistory (addContextSnapshot config mem c acts outs dur) =
     (let h = contextHistory mem
                @ [\<lparr>ss_context = c, userActions = acts, outcomes = outs, duration = dur\<rparr>]
      in if int (length h) > maxHistorySize config then slice_from h (- maxHistorySize config)
         else h)"
  by (simp add: addContextSnapshot_def Let_def)

lemma addContextSnapshot_bounded:
  assumes "1 \<le> maxHistorySize config"
  shows "int (length (contextHistory (addContextSnapshot config mem c acts outs dur)))
           \<le> maxHistorySize config"
  using assms by (auto simp: addContextSnapshot_history Let_def slice_from_def relative_index_def)

lemma addContextSnapshot_keeps_newest:
  assumes "1 \<le> maxHistorySize config"
  shows "contextHistory (addContextSnapshot config mem c acts outs dur)
           = (let h = contextHistory mem
                      @ [\<lparr>ss_context = c, userActions = acts, outcomes = outs, duration = dur\<rparr>]
              in drop (length h - nat (maxHistorySize config)) h)"
  using assms by (auto simp: addContextSnapshot_history Let_def slice_from_def relative_index_def
      nat_diff_distrib' nat_add_distrib max_def)

lemma cleanup_retention:
  "list_all (\<lambda>s. \<not> timestamp (ss_context s) < now - contextRetentionPeriod config)
     (contextHistory (cleanup config now mem))"
  by (auto simp: cleanup_def list_all_iff)

section \<open>Ranked retrieval from Context Memory\<close>







lemma example_scores:
  "calculateRelevanceScore query_context older_context = 0.915
   \<and> calculateRelevanceScore query_context browser_context < 0.22"
  by (simp add: calculateRelevanceScore_def query_context_def older_context_def
      browser_context_def example_context_def)


section \<open>History selection of the Synthesizer\<close>

text \<open>
  Claim C10: the Synthesizer does not exclude the current context from the history it
  selects.  For a history that holds a snapshot of the current context itself, that
  snapshot is returned, and first; Memory's \<open>getRelevantContext\<close> leaves it out of the
  same history.  A context scores \<open>1\<close> against itself.
\<close>

theorem synthesizer_keeps_current_snapshot:
  "relevantHistory (fst (synthesizeContext knowledge rd query_context
       [example_snapshot older_context, example_snapshot query_context] None))
     = [example_snapshot query_context, example_snapshot older_context]
   \<and> getRelevantContext
        \<lparr>contextHistory = [example_snapshot older_context, example_snapshot query_context],
         contextPatterns = []\<rparr> query_context 5
     = [example_snapshot older_context]
   \<and> calculateHistoricalRelevance c c = 1"
  by (simp add: synthesizeContext_def selectRelevantHistory_def getRelevantContext_def
      calculateHistoricalRelevance_def calculateRelevanceScore_def slice_def relative_index_def
      query_context_def older_context_def example_context_def example_snapshot_def
      split_def Let_def)

section \<open>Pattern mining\<close>

text \<open>
  A group holds, in the order of the history, the snapshots of its key, and no key has
  two groups.
\<close>

lemma group_by_snoc: "group_by key (xs @ [x]) = group_add (key x) x (group_by key xs)"
  by (simp add: group_by_def)

lemma group_add_fst:
  "map fst (group_add k v m) = (if k \<in> set (map fst m) then map fst m else map fst m @ [k])"
  by (induction m) force+

lemma group_add_map_of:
  "map_of (group_add k v m) =
     (map_of m)(k \<mapsto> (case map_of m k of None \<Rightarrow> [v] | Some vs \<Rightarrow> vs @ [v]))"
  by (induction m) (auto simp: fun_eq_iff)

lemma group_by_distinct: "distinct (map fst (group_by key xs))"
  by (induction xs rule: rev_induct)
    (simp_all add: group_by_snoc group_add_fst, simp add: group_by_def)

lemma group_by_map_of:
  "map_of (group_by key xs) k =
     (if k \<in> key ` set xs then Some (filter (\<lambda>x. key x = k) xs) else None)"
proof (induction xs rule: rev_induct)
  case Nil
  then show ?case by (simp add: group_by_def)
next
  case (snoc x xs)
  show ?case
  proof (cases "key x = k")
    case True
    then show ?thesis
      using snoc by (auto simp: group_by_snoc group_add_map_of filter_empty_conv image_iff)
  next
    case False
    then show ?thesis
      using snoc by (auto simp: group_by_snoc group_add_map_of)
  qed
qed

lemma group_by_entry:
  assumes "(k, vs) \<in> set (group_by key xs)"
  shows "vs = filter (\<lambda>x. key x = k) xs"
proof -
  from assms have "map_of (group_by key xs) k = Some vs"
    by (simp add: group_by_distinct)
  then show ?thesis by (simp add: group_by_map_of split: if_splits)
qed

lemma identifyPatterns_history:
  "contextHistory (snd (identifyPatterns config getHours mem)) = contextHistory mem"
  by (simp add: identifyPatterns_def Let_def)

lemma environment_patterns_shape:
  "list_all (\<lambda>p. \<exists>env. cp_id p = ''env-'' @ environment_string env
        \<and> contexts p = map ss_context
            (filter (\<lambda>s. environment (ss_context s) = env) (contextHistory mem))
        \<and> frequency p = length (contexts p)
        \<and> cp_confidence p = min 1 (real (frequency p) / 20))
     (identifyEnvironmentPatterns config mem)"
  unfolding list_all_iff
proof
  fix p
  assume "p \<in> set (identifyEnvironmentPatterns config mem)"
  then obtain env snaps where
    g: "(env, snaps) \<in> set (group_by (\<lambda>s. environment (ss_context s)) (contextHistory mem))"
    and p: "p = \<lparr>cp_id = ''env-'' @ environment_string env,
             cp_name = environment_string env @ '' environment pattern'',
             frequency = length snaps,
             contexts = map ss_context snaps,
             triggers = extractCommonTriggers snaps,
             cp_outcomes = extractCommonOutcomes snaps,
             cp_confidence = min 1 (real (length snaps) / 20)\<rparr>"
    unfolding identifyEnvironmentPatterns_def by auto
  from g have "snaps = filter (\<lambda>s. environment (ss_context s) = env) (contextHistory mem)"
    by (rule group_by_entry)
  with p show "\<exists>env. cp_id p = ''env-'' @ environment_string env
        \<and> contexts p = map ss_context
            (filter (\<lambda>s. environment (ss_context s) = env) (contextHistory mem))
        \<and> frequency p = length (contexts p)
        \<and> cp_confidence p = min 1 (real (frequency p) / 20)"
    by (intro exI[of _ env]) simp
qed

lemma activity_patterns_shape:
  "list_all (\<lambda>p. \<exists>act. cp_id p = ''activity-'' @ activity_string act
        \<and> contexts p = map ss_context
            (filter (\<lambda>s. activity (ss_context s) = act) (contextHistory mem))
        \<and> frequency p = length (contexts p)
        \<and> cp_confidence p = min 1 (real (frequency p) / 15))
     (identifyActivityPatterns config mem)"
  unfolding list_all_iff
proof
  fix p
  assume "p \<in> set (identifyActivityPatterns config mem)"
  then obtain act snaps where
    g: "(act, snaps) \<in> set (group_by (\<lambda>s. activity (ss_context s)) (contextHistory mem))"
    and p: "p = \<lparr>cp_id = ''activity-'' @ activity_string act,
             cp_name = activity_string act @ '' activity pattern'',
             frequency = length snaps,
             contexts = map ss_context snaps,
             triggers = extractCommonTriggers snaps,
             cp_outcomes = extractCommonOutcomes snaps,
             cp_confidence = min 1 (real (length snaps) / 15)\<rparr>"
    unfolding identifyActivityPatterns_def by auto
  from g have "snaps = filter (\<lambda>s. activity (ss_context s) = act) (contextHistory mem)"
    by (rule group_by_entry)
  with p show "\<exists>act. cp_id p = ''activity-'' @ activity_string act
        \<and> contexts p = map ss_context
            (filter (\<lambda>s. activity (ss_context s) = act) (contextHistory mem))
        \<and> frequency p = length (contexts p)
        \<and> cp_confidence p = min 1 (real (frequency p) / 15)"
    by (intro exI[of _ act]) simp
qed

lemma temporal_patterns_shape:
  "list_all (\<lambda>p. \<exists>hour. cp_id p = ''time-'' @ number_string hour
        \<and> contexts p = map ss_context
            (filter (\<lambda>s. getHours (timestamp (ss_context s)) = hour) (contextHistory mem))
        \<and> frequency p = length (contexts p)
        \<and> cp_confidence p = min 1 (real (frequency p) / 10))
     (identifyTemporalPatterns config getHours mem)"
  unfolding list_all_iff
proof
  fix p
  assume "p \<in> set (identifyTemporalPatterns config getHours mem)"
  then obtain hour snaps where
    g: "(hour, snaps) \<in> set (group_by (\<lambda>s. getHours (timestamp (ss_context s)))
                               (contextHistory mem))"
    and p: "p = \<lparr>cp_id = ''time-'' @ number_string hour,
             cp_name = number_string hour @ '':00 temporal pattern'',
             frequency = length snaps,
             contexts = map ss_context snaps,
             triggers = [\<lparr>ct_type = ''temporal'',
                          condition = ''hour='' @ number_string hour, weight = 1\<rparr>],
             cp_outcomes = extractCommonOutcomes snaps,
             cp_confidence = min 1 (real (length snaps) / 10)\<rparr>"
    unfolding identifyTemporalPatterns_def by auto
  from g have "snaps = filter (\<lambda>s. getHours (timestamp (ss_context s)) = hour)
                         (contextHistory mem)"
    by (rule group_by_entry)
  with p show "\<exists>hour. cp_id p = ''time-'' @ number_string hour
        \<and> contexts p = map ss_context
            (filter (\<lambda>s. getHours (timestamp (ss_context s)) = hour) (contextHistory mem))
        \<and> frequency p = length (contexts p)
        \<and> cp_confidence p = min 1 (real (frequency p) / 10)"
    by (intro exI[of _ hour]) simp
qed

lemma identifyPatterns_fst:
  "fst (identifyPatterns config getHours m)
     = identifyEnvironmentPatterns config m @ identifyActivityPatterns config m
       @ identifyTemporalPatterns config getHours m"
  by (simp add: identifyPatterns_def Let_def)

lemma miners_read_history_only:
  assumes "contextHistory mem' = contextHistory mem"
  shows "identifyEnvironmentPatterns config mem' = identifyEnvironmentPatterns config mem"
    and "identifyActivityPatterns config mem' = identifyActivityPatterns config mem"
    and "identifyTemporalPatterns config getHours mem'
           = identifyTemporalPatterns config getHours mem"
  using assms
  by (simp_all add: identifyEnvironmentPatterns_def identifyActivityPatterns_def
      identifyTemporalPatterns_def)

text \<open>
  Claim C7: \<open>identifyPatterns\<close> called twice in succession, with no record in between,
  returns the same list of patterns, in the same order: the environment patterns, then the
  activity patterns, then the hour-of-day patterns.  A pattern has the contexts of the
  history snapshots of its environment (its activity, its hour) in history order, their
  number as its frequency, and the confidence \<open>min(1, count/20)\<close> for an environment,
  \<open>min(1, count/15)\<close> for an activity, \<open>min(1, count/10)\<close> for an hour.
\<close>

theorem identifyPatterns_idempotent:
  "fst (identifyPatterns config getHours (snd (identifyPatterns config getHours mem)))
     = fst (identifyPatterns config getHours mem)
   \<and> fst (identifyPatterns config getHours mem)
     = identifyEnvironmentPatterns config mem @ identifyActivityPatterns config mem
       @ identifyTemporalPatterns config getHours mem
   \<and> list_all (\<lambda>p. \<exists>env. cp_id p = ''env-'' @ environment_string env
        \<and> contexts p = map ss_context
            (filter (\<lambda>s. environment (ss_context s) = env) (contextHistory mem))
        \<and> frequency p = length (contexts p)
        \<and> cp_confidence p = min 1 (real (frequency p) / 20))
     (identifyEnvironmentPatterns config mem)
   \<and> list_all (\<lambda>p. \<exists>act. cp_id p = ''activity-'' @ activity_string act
        \<and> contexts p = map ss_context
            (filter (\<lambda>s. activity (ss_context s) = act) (contextHistory mem))
        \<and> frequency p = length (contexts p)
        \<and> cp_confidence p = min 1 (real (frequency p) / 15))
     (identifyActivityPatterns config mem)
   \<and> list_all (\<lambda>p. \<exists>hour. cp_id p = ''time-'' @ number_string hour
        \<and> contexts p = map ss_context
            (filter (\<lambda>s. getHours (timestamp (ss_context s)) = hour) (contextHistory mem))
        \<and> frequency p = length (contexts p)
        \<and> cp_confidence p = min 1 (real (frequency p) / 10))
     (identifyTemporalPatterns config getHours mem)"
proof (intro conjI)
  have h: "contextHistory (snd (identifyPatterns config getHours mem)) = contextHistory mem"
    by (rule identifyPatterns_history)
  show "fst (identifyPatterns config getHours (snd (identifyPatterns config getHours mem)))
          = fst (identifyPatterns config getHours mem)"
    by (simp only: identifyPatterns_fst miners_read_history_only[OF h])
qed (rule identifyPatterns_fst environment_patterns_shape activity_patterns_shape
      temporal_patterns_shape)+

text \<open>
  Examples.  With a detection threshold of \<open>2\<close> the history of three snapshots has an
  environment pattern and an activity pattern of two contexts each, and no hour of the
  day with two snapshots.  Two records of an \<open>ide\<close> and \<open>coding\<close> context give the
  combined pattern \<open>ide-coding\<close> the frequency \<open>2\<close> and the confidence \<open>0.2\<close>.
\<close>

lemma identifyPatterns_example:
  "map (\<lambda>p. (cp_id p, frequency p, map sc_id (contexts p), cp_confidence p))
     (fst (identifyPatterns mining_config utc_hours three_snapshots))
   = [(''env-ide'', 2, [''q'', ''h1''], 1 / 10), (''activity-coding'', 2, [''q'', ''h1''], 2 / 15)]"
  by (simp add: identifyPatterns_def identifyEnvironmentPatterns_def identifyActivityPatterns_def
      identifyTemporalPatterns_def group_by_def mining_config_def three_snapshots_def
      example_snapshot_def query_context_def older_context_def browser_context_def
      example_context_def utc_hours_def Let_def)

lemma incremental_pattern_example:
  "map (\<lambda>(k, p). (k, frequency p, cp_confidence p))
     (contextPatterns
        (addContextSnapshot mining_config
           (addContextSnapshot mining_config empty_memory query_context [] [] 0)
           older_context [] [] 0))
   = [(''ide-coding'', 2, 2 / 10)]"
  by (simp add: addContextSnapshot_def updatePatterns_def mining_config_def empty_memory_def
      query_context_def older_context_def example_context_def Let_def)

section \<open>Environment categorization\<close>

lemma or_else_lowered: "or_else (map_option toLowerCase s) [] = lowered s"
  by (cases s) (auto simp: or_else_def lowered_def)

lemma categorizeEnvironment_table:
  "(er_type (categorizeEnvironment ad), er_confidence (categorizeEnvironment ad)) =
     (if has_signal ad
      then (case first_vocabulary (lowered (opt_field ad_windowTitle ad))
                   (lowered (opt_field ad_activeApplication ad)) of
              Some found \<Rightarrow> found
            | None \<Rightarrow> (Env_unknown, 0.1))
      else (Env_unknown, 0.1))"
  by (simp add: categorizeEnvironment_def has_signal_def first_vocabulary_def
      environment_vocabularies_def or_else_lowered Let_def isIdeEnvironment_def
      isBrowserEnvironment_def isDesignEnvironment_def isDocumentEnvironment_def
      isTerminalEnvironment_def)

lemma sublist_map_both:
  assumes "sublist xs ys"
  shows "sublist (map f xs) (map f ys)"
proof -
  from assms obtain ps ss where "ys = ps @ xs @ ss" by (auto simp: sublist_def)
  then have "map f ys = map f ps @ map f xs @ map f ss" by simp
  then show ?thesis unfolding sublist_def by blast
qed

lemma lower_vscode: "toLowerCase ''vscode'' = ''vscode''"
  by code_simp

lemma includes_vscode_lower:
  assumes "js_includes title ''vscode''"
  shows "js_includes (toLowerCase title) ''vscode''"
proof -
  from assms have "sublist (map lower_char ''vscode'') (map lower_char title)"
    unfolding js_includes_def by (rule sublist_map_both)
  then show ?thesis
    using lower_vscode by (simp add: js_includes_def toLowerCase_def)
qed

lemma vscode_is_ide:
  assumes "js_includes title ''vscode''"
  shows "isIdeEnvironment (toLowerCase title) app"
  using includes_vscode_lower[OF assms]
  by (simp add: isIdeEnvironment_def some_indicator_def ideIndicators_def)

lemma includes_nonempty: "js_includes title ''vscode'' \<Longrightarrow> title \<noteq> []"
  by (auto simp: js_includes_def)

text \<open>
  Claim C8: for every request whose window title contains \<open>vscode\<close> the environment
  result is \<open>ide\<close> with a confidence of at least \<open>0.4\<close>, and so is the environment of the
  returned context; and for every request the result is the environment and the increment
  of the first vocabulary, in the order IDE, browser, design, document, terminal, that
  matches the lower-cased title or application name, and \<open>unknown\<close> with \<open>0.1\<close> when
  there is no window title and no application name or when no vocabulary matches.
\<close>

theorem environment_categorization:
  "(ad_windowTitle d = Some title \<and> js_includes title ''vscode''
      \<longrightarrow> er_type (categorizeEnvironment (Some d)) = Env_ide
          \<and> er_confidence (categorizeEnvironment (Some d)) \<ge> 0.4
          \<and> environment (analyzeScreenContext tests cid now shots (Some d)) = Env_ide)
   \<and> (er_type (categorizeEnvironment ad), er_confidence (categorizeEnvironment ad)) =
     (if has_signal ad
      then (case first_vocabulary (lowered (opt_field ad_windowTitle ad))
                   (lowered (opt_field ad_activeApplication ad)) of
              Some found \<Rightarrow> found
            | None \<Rightarrow> (Env_unknown, 0.1))
      else (Env_unknown, 0.1))"
proof (intro conjI impI)
  assume a: "ad_windowTitle d = Some title \<and> js_includes title ''vscode''"
  then have ide: "isIdeEnvironment (toLowerCase title) app" for app
    using vscode_is_ide by blast
  from a have ne: "title \<noteq> []" using includes_nonempty by blast
  have r: "categorizeEnvironment (Some d)
             = \<lparr>er_type = Env_ide, er_confidence = 0.4,
                er_indicators = [''IDE application detected'']\<rparr>"
    using a ne ide
    by (simp add: categorizeEnvironment_def opt_field_def truthy_def or_else_def toLowerCase_def)
  show "er_type (categorizeEnvironment (Some d)) = Env_ide" by (simp add: r)
  show "er_confidence (categorizeEnvironment (Some d)) \<ge> 0.4" by (simp add: r)
  show "environment (analyzeScreenContext tests cid now shots (Some d)) = Env_ide"
    by (simp add: analyzeScreenContext_def Let_def r)
qed (rule categorizeEnvironment_table)

lemma includes_example: "js_includes ''main.ts - vscode'' ''vscode''"
  by code_simp

theorem environment_categorization_witness:
  "ad_windowTitle vscode_request = Some ''main.ts - vscode''
   \<and> js_includes ''main.ts - vscode'' ''vscode''
   \<and> er_type (categorizeEnvironment (Some vscode_request)) = Env_ide
   \<and> er_confidence (categorizeEnvironment (Some vscode_request)) \<ge> 0.4
   \<and> environment (analyzeScreenContext no_content ''c1'' 0 [] (Some vscode_request)) = Env_ide"
  using environment_categorization [of vscode_request "''main.ts - vscode''" no_content "''c1''" 0 "[]"]
    includes_example
  by (simp add: vscode_request_def)

section \<open>The window-title clause of the situational description\<close>

text \<open>
  Claim C9 asks that a title of fifty characters or fewer appear without an ellipsis.
  The code appends the ellipsis when the cut title has at least fifty characters, so a
  title of exactly fifty characters, of which nothing is cut, gets one.
\<close>

theorem ellipsis_at_fifty_characters:
  "length title_of_fifty = 50
   \<and> generateSituationalDescription
        (example_context ''c'' 0 Env_ide Act_coding 0.7 ''Code'' title_of_fifty) w
     = ''User is working in a ide environment currently engaged in coding using Code ''
       @ ''with focus on '' @ [CHR 0x22] @ title_of_fifty @ ''...'' @ [CHR 0x22]
       @ '' (moderate confidence)''"
  by (simp add: generateSituationalDescription_def example_context_def title_of_fifty_def
      substring0_def Let_def)

text \<open>
  For every context with a window title the description has the clause, and the
  ellipsis is there exactly when the title has at least fifty characters.
\<close>

lemma part_in_join: "p \<in> set ps \<Longrightarrow> sublist p (join sep ps)"
proof (induction sep ps rule: join.induct)
  case (1 sep)
  then show ?case by simp
next
  case (2 sep q)
  then show ?case by simp
next
  case (3 sep q r ps)
  show ?case
  proof (cases "p = q")
    case True
    then show ?thesis by simp
  next
    case False
    with 3 have "sublist p (join sep (r # ps))" by simp
    then show ?thesis
      using sublist_append[of p "q @ sep" "join sep (r # ps)"] by auto
  qed
qed

lemma title_clause:
  assumes "windowTitle (applicationDetails c) \<noteq> []"
  shows "sublist (''with focus on '' @ [CHR 0x22] @ take 50 (windowTitle (applicationDetails c))
                  @ (if 50 \<le> length (windowTitle (applicationDetails c)) then ''...'' else [])
                  @ [CHR 0x22])
           (generateSituationalDescription c w)"
  unfolding generateSituationalDescription_def Let_def substring0_def
  by (rule part_in_join) (use assms in \<open>simp add: min_def\<close>)

section \<open>Quality metrics\<close>

text \<open>
  Claim C5, as stated, makes the overall score the clamped weighted sum of the sub-scores
  of the record.  For a context of confidence \<open>1\<close> that lists six sources the accuracy is
  computed as \<open>1.04\<close> and recorded as \<open>1\<close>; the overall score \<open>0.52\<close> is formed from
  \<open>1.04\<close>, the weighted sum of the recorded sub-scores is \<open>0.51\<close>.
\<close>

theorem overall_score_not_from_record:
  "accuracy six_source_quality = 1
   \<and> completeness six_source_quality = 0.4
   \<and> relevance six_source_quality = 0.6
   \<and> timeliness six_source_quality = 0
   \<and> actionability six_source_quality = 0.3
   \<and> overallScore six_source_quality = 0.52
   \<and> min 1 (weighted_sum (accuracy six_source_quality) (completeness six_source_quality)
               (relevance six_source_quality) (timeliness six_source_quality)
               (actionability six_source_quality)) = 0.51"
  by (simp add: six_source_quality_def six_source_context_def example_context_def
      assessContextQuality_def calculateCompleteness_def calculateRelevance_def
      calculateTimeliness_def calculateActionability_def getDefaultDomainContext_def
      weighted_sum_def Let_def)

lemma completeness_bounds:
  "0.4 \<le> calculateCompleteness c d \<and> calculateCompleteness c d \<le> 1"
  by (simp add: calculateCompleteness_def Let_def)

lemma relevance_bounds:
  assumes "0 \<le> confidence c" "confidence c \<le> 1"
  shows "0.5 \<le> calculateRelevance c d h \<and> calculateRelevance c d h \<le> 1"
  using assms by (simp add: calculateRelevance_def Let_def min_def)

lemma timeliness_bounds:
  "0 \<le> calculateTimeliness now c \<and> (timestamp c \<le> now \<longrightarrow> calculateTimeliness now c \<le> 1)"
  by (simp add: calculateTimeliness_def Let_def)

lemma actionability_bounds:
  "0 \<le> calculateActionability c d \<and> calculateActionability c d \<le> 1"
  by (simp add: calculateActionability_def Let_def min_def)

lemma accuracy_bounds:
  assumes "0 \<le> confidence c" "confidence c \<le> 1"
  shows "0 \<le> accuracy_value c \<and> (length (contextSources c) \<le> 5 \<longrightarrow> accuracy_value c \<le> 1)"
  using assms by (auto simp: accuracy_value_def)

lemma assessContextQuality_fields:
  "accuracy (assessContextQuality now c d h) = min 1 (accuracy_value c)"
  "completeness (assessContextQuality now c d h) = min 1 (calculateCompleteness c d)"
  "relevance (assessContextQuality now c d h) = min 1 (calculateRelevance c d h)"
  "timeliness (assessContextQuality now c d h) = min 1 (calculateTimeliness now c)"
  "actionability (assessContextQuality now c d h) = min 1 (calculateActionability c d)"
  "overallScore (assessContextQuality now c d h) =
     min 1 (weighted_sum (accuracy_value c) (calculateCompleteness c d)
              (calculateRelevance c d h) (calculateTimeliness now c)
              (calculateActionability c d))"
  by (simp_all add: assessContextQuality_def accuracy_value_def weighted_sum_def Let_def)

lemma weighted_sum_nonneg:
  "0 \<le> a \<Longrightarrow> 0 \<le> c \<Longrightarrow> 0 \<le> r \<Longrightarrow> 0 \<le> t \<Longrightarrow> 0 \<le> x \<Longrightarrow> 0 \<le> weighted_sum a c r t x"
  by (simp add: weighted_sum_def)

text \<open>
  Claim C5, amended: for a context with confidence in \<open>[0,1]\<close>, every domain context and
  every history, the five recorded sub-scores and the overall score are in \<open>[0,1]\<close>; the
  overall score is the weighted sum \<open>0.25, 0.2, 0.2, 0.15, 0.2\<close> of the five values as
  computed, cut at \<open>1\<close>; each recorded sub-score is its computed value cut at \<open>1\<close> (a cut
  that can only change the accuracy and the timeliness); the computed timeliness is
  \<open>max(0, 1 - age/5min)\<close>.  When the context has at most five sources and its timestamp
  is not after the clock reading, no cut changes a value: the overall score is the
  weighted sum of the recorded sub-scores, cut at \<open>1\<close>, and the recorded timeliness is
  \<open>max(0, 1 - age/5min)\<close>.
\<close>

theorem quality_metrics:
  assumes "0 \<le> confidence c" and "confidence c \<le> 1"
  shows "0 \<le> accuracy (assessContextQuality now c d h)
         \<and> accuracy (assessContextQuality now c d h) \<le> 1
         \<and> 0 \<le> completeness (assessContextQuality now c d h)
         \<and> completeness (assessContextQuality now c d h) \<le> 1
         \<and> 0 \<le> relevance (assessContextQuality now c d h)
         \<and> relevance (assessContextQuality now c d h) \<le> 1
         \<and> 0 \<le> timeliness (assessContextQuality now c d h)
         \<and> timeliness (assessContextQuality now c d h) \<le> 1
         \<and> 0 \<le> actionability (assessContextQuality now c d h)
         \<and> actionability (assessContextQuality now c d h) \<le> 1
         \<and> 0 \<le> overallScore (assessContextQuality now c d h)
         \<and> overallScore (assessContextQuality now c d h) \<le> 1
         \<and> overallScore (assessContextQuality now c d h) =
             min 1 (weighted_sum (accuracy_value c) (calculateCompleteness c d)
                      (calculateRelevance c d h) (calculateTimeliness now c)
                      (calculateActionability c d))
         \<and> accuracy (assessContextQuality now c d h) = min 1 (accuracy_value c)
         \<and> completeness (assessContextQuality now c d h) = calculateCompleteness c d
         \<and> relevance (assessContextQuality now c d h) = calculateRelevance c d h
         \<and> timeliness (assessContextQuality now c d h) = min 1 (calculateTimeliness now c)
         \<and> actionability (assessContextQuality now c d h) = calculateActionability c d
         \<and> calculateTimeliness now c = max 0 (1 - real_of_int (now - timestamp c) / 300000)
         \<and> (length (contextSources c) \<le> 5 \<and> timestamp c \<le> now \<longrightarrow>
              overallScore (assessContextQuality now c d h) =
                min 1 (weighted_sum (accuracy (assessContextQuality now c d h))
                         (completeness (assessContextQuality now c d h))
                         (relevance (assessContextQuality now c d h))
                         (timeliness (assessContextQuality now c d h))
                         (actionability (assessContextQuality now c d h)))
              \<and> timeliness (assessContextQuality now c d h)
                  = max 0 (1 - real_of_int (now - timestamp c) / 300000))"
proof -
  define Q where "Q = assessContextQuality now c d h"
  define A where "A = accuracy_value c"
  define C where "C = calculateCompleteness c d"
  define R where "R = calculateRelevance c d h"
  define T where "T = calculateTimeliness now c"
  define X where "X = calculateActionability c d"
  have f: "accuracy Q = min 1 A" "completeness Q = min 1 C" "relevance Q = min 1 R"
    "timeliness Q = min 1 T" "actionability Q = min 1 X"
    "overallScore Q = min 1 (weighted_sum A C R T X)"
    unfolding Q_def A_def C_def R_def T_def X_def by (rule assessContextQuality_fields)+
  have a: "0 \<le> A" unfolding A_def using accuracy_bounds[OF assms] by simp
  have cb: "0 \<le> C" "C \<le> 1"
    unfolding C_def using completeness_bounds[of c d] by simp_all
  have rb: "0 \<le> R" "R \<le> 1"
    unfolding R_def using relevance_bounds[OF assms, of d h] by simp_all
  have tb: "0 \<le> T" unfolding T_def using timeliness_bounds[of now c] by simp
  have xb: "0 \<le> X" "X \<le> 1"
    unfolding X_def using actionability_bounds[of c d] by simp_all
  have w: "0 \<le> weighted_sum A C R T X"
    using a cb(1) rb(1) tb xb(1) by (rule weighted_sum_nonneg)
  have t: "T = max 0 (1 - real_of_int (now - timestamp c) / 300000)"
    unfolding T_def by (simp add: calculateTimeliness_def Let_def)
  have b: "0 \<le> accuracy Q" "accuracy Q \<le> 1" "0 \<le> completeness Q" "completeness Q \<le> 1"
    "0 \<le> relevance Q" "relevance Q \<le> 1" "0 \<le> timeliness Q" "timeliness Q \<le> 1"
    "0 \<le> actionability Q" "actionability Q \<le> 1" "0 \<le> overallScore Q"
    "overallScore Q \<le> 1"
    unfolding f using a cb(1) rb(1) tb xb(1) w by simp_all
  have e: "completeness Q = C" "relevance Q = R" "actionability Q = X"
    unfolding f using cb(2) rb(2) xb(2) by simp_all
  have cond: "overallScore Q = min 1 (weighted_sum (accuracy Q) (completeness Q) (relevance Q)
                                        (timeliness Q) (actionability Q))
              \<and> timeliness Q = max 0 (1 - real_of_int (now - timestamp c) / 300000)"
    if h: "length (contextSources c) \<le> 5 \<and> timestamp c \<le> now"
  proof -
    have "A \<le> 1" unfolding A_def using h accuracy_bounds[OF assms] by simp
    then have 1: "accuracy Q = A" unfolding f by simp
    have "T \<le> 1" unfolding T_def using h timeliness_bounds[of now c] by simp
    then have 2: "timeliness Q = T" unfolding f by simp
    show ?thesis unfolding 1 2 e using f(6) t by simp
  qed
  have all: "0 \<le> accuracy Q \<and> accuracy Q \<le> 1 \<and> 0 \<le> completeness Q \<and> completeness Q \<le> 1
    \<and> 0 \<le> relevance Q \<and> relevance Q \<le> 1 \<and> 0 \<le> timeliness Q \<and> timeliness Q \<le> 1
    \<and> 0 \<le> actionability Q \<and> actionability Q \<le> 1 \<and> 0 \<le> overallScore Q
    \<and> overallScore Q \<le> 1
    \<and> overallScore Q = min 1 (weighted_sum A C R T X)
    \<and> accuracy Q = min 1 A \<and> completeness Q = C \<and> relevance Q = R
    \<and> timeliness Q = min 1 T \<and> actionability Q = X
    \<and> T = max 0 (1 - real_of_int (now - timestamp c) / 300000)
    \<and> (length (contextSources c) \<le> 5 \<and> timestamp c \<le> now \<longrightarrow>
         overallScore Q = min 1 (weighted_sum (accuracy Q) (completeness Q) (relevance Q)
                                   (timeliness Q) (actionability Q))
         \<and> timeliness Q = max 0 (1 - real_of_int (now - timestamp c) / 300000))"
    using b e f(1) f(4) f(6) t cond by blast
  show ?thesis
    using all unfolding Q_def A_def C_def R_def T_def X_def .
qed

text \<open>
  The theorem at a context of confidence \<open>0.7\<close> with one source, one minute old, in the
  default domain, with one snapshot of history.
\<close>

lemma quality_example:
  "assessContextQuality 1700000060000 query_context (getDefaultDomainContext ''general'')
      [example_snapshot older_context]
   = \<lparr>accuracy = 0.6, completeness = 0.9, relevance = 0.62, timeliness = 0.8,
      actionability = 0.5, overallScore = 0.674\<rparr>"
  by (simp add: assessContextQuality_def calculateCompleteness_def calculateRelevance_def
      calculateTimeliness_def calculateActionability_def getDefaultDomainContext_def
      query_context_def example_context_def Let_def)

theorem quality_metrics_witness:
  "0 \<le> confidence query_context \<and> confidence query_context \<le> 1
   \<and> length (contextSources query_context) \<le> 5 \<and> timestamp query_context \<le> 1700000060000
   \<and> assessContextQuality 1700000060000 query_context (getDefaultDomainContext ''general'')
        [example_snapshot older_context]
      = \<lparr>accuracy = 0.6, completeness = 0.9, relevance = 0.62, timeliness = 0.8,
         actionability = 0.5, overallScore = 0.674\<rparr>
   \<and> min 1 (weighted_sum 0.6 0.9 0.62 0.8 0.5) = 0.674
   \<and> max 0 (1 - real_of_int (1700000060000 - timestamp query_context) / 300000) = 0.8"
  using quality_metrics [of query_context 1700000060000 "getDefaultDomainContext ''general''"
      "[example_snapshot older_context]"]
    quality_example
  by (simp add: query_context_def example_context_def weighted_sum_def)

section \<open>Template variable substitution\<close>



























section \<open>The fields of the engineered context\<close>

text \<open>
  The description, the selected history and the quality record of the result of
  \<open>synthesizeContext\<close> are the values of the functions above.
\<close>

lemma synthesizeContext_parts:
  "situationalContext (fst (synthesizeContext k rd c h i))
     = generateSituationalDescription c (weightContextElements c)"
  "relevantHistory (fst (synthesizeContext k rd c h i)) = selectRelevantHistory c h 5"
  "contextQuality (fst (synthesizeContext k rd c h i))
     = assessContextQuality (t_quality rd) c
         (fst (buildDomainContext k (environment c) (activity c))) (selectRelevantHistory c h 5)"
  by (simp_all add: synthesizeContext_def Let_def split_def)

end
